theory Spec2Isabelle
  imports Complex_Main
begin

section \<open>Numbers, arrays and errors\<close>

text \<open>
  The simulators compute with 64-bit floats. The embedding reads every float as a real
  number, so all statements below are about the exact arithmetic the formulas denote;
  rounding, infinities and NaN are outside it. One-dimensional numpy arrays and Python
  lists are HOL lists; an index that the source reads out of range is written out as the
  error the source raises.
\<close>

datatype error = ValueError | IndexError | NotImplementedError

text \<open>
  Python's \<^verbatim>\<open>a % b\<close> on floats is the floored remainder: it has the sign of the
  divisor, and for a positive divisor lies in the half-open interval from 0 to \<open>b\<close>.
\<close>

definition py_mod :: "real \<Rightarrow> real \<Rightarrow> real" where
  "py_mod a b = a - b * of_int \<lfloor>a / b\<rfloor>"

section \<open>Boat: state record\<close>

text \<open>
  \<^verbatim>\<open>BoatState\<close> of \<^verbatim>\<open>boat.py\<close>. The fields \<^verbatim>\<open>x\<close> and \<^verbatim>\<open>y\<close> are
  called \<open>pos_x\<close> and \<open>pos_y\<close> here; the other fields keep their names.
\<close>

record BoatState =
  pos_x :: real
  pos_y :: real
  psi :: real
  Vx :: real
  Vy :: real
  omega :: real
  adapt_param1 :: real
  adapt_param2 :: real

definition from_array :: "real list \<Rightarrow> error + BoatState" where
  "from_array arr =
     (if length arr \<noteq> 8 then Inl ValueError
      else Inr \<lparr>pos_x = arr ! 0, pos_y = arr ! 1, psi = arr ! 2, Vx = arr ! 3,
                Vy = arr ! 4, omega = arr ! 5, adapt_param1 = arr ! 6,
                adapt_param2 = arr ! 7\<rparr>)"

definition to_array :: "BoatState \<Rightarrow> real list" where
  "to_array s =
     [pos_x s, pos_y s, psi s, Vx s, Vy s, omega s, adapt_param1 s, adapt_param2 s]"

text \<open>\<^verbatim>\<open>BoatState._wrap_angle\<close>.\<close>

definition wrap_angle :: "real \<Rightarrow> real" where
  "wrap_angle angle = py_mod (angle + pi) (2 * pi) - pi"

text \<open>
  \<^verbatim>\<open>BoatState.update\<close> mutates the object and returns nothing, or raises. The model
  returns the outcome together with the state the object holds afterwards. The fields are
  assigned in the order of the source; no assignment reads a field written before it
  except \<open>psi\<close>, which is wrapped right after its Euler step.
\<close>

definition BoatState_update ::
  "BoatState \<Rightarrow> real list \<Rightarrow> real \<Rightarrow> (error + unit) \<times> BoatState" where
  "BoatState_update s derivatives dt =
     (if length derivatives \<noteq> 8 then (Inl ValueError, s)
      else (Inr (),
            s\<lparr>pos_x := pos_x s + derivatives ! 0 * dt,
              pos_y := pos_y s + derivatives ! 1 * dt,
              psi := wrap_angle (psi s + derivatives ! 2 * dt),
              Vx := Vx s + derivatives ! 3 * dt,
              Vy := Vy s + derivatives ! 4 * dt,
              omega := omega s + derivatives ! 5 * dt,
              adapt_param1 := adapt_param1 s + derivatives ! 6 * dt,
              adapt_param2 := adapt_param2 s + derivatives ! 7 * dt\<rparr>))"

section \<open>Boat: parameters, kinematics and the thruster variants\<close>

record BoatParameters =
  mass :: real
  inertia :: real
  damping :: "real list"
  L :: real
  air_density :: real
  sail_Cx :: real
  sail_Cy :: real
  sail_area :: real

text \<open>
  The class hierarchy \<^verbatim>\<open>Boat\<close>, \<^verbatim>\<open>DifferentialThrustBoat\<close>,
  \<^verbatim>\<open>SteerableThrustBoat\<close> is a tag on the boat object; \<open>PlainBoat\<close> is an instance
  of the base class itself. The wind-field collaborator is its \<^verbatim>\<open>get_wind\<close>
  method, a function from a position to a wind vector, or \<open>None\<close>.
\<close>

datatype BoatKind = PlainBoat | DifferentialThrustBoat | SteerableThrustBoat

record Boat =
  kind :: BoatKind
  state :: BoatState
  params :: BoatParameters
  wind_field :: "(real \<times> real \<Rightarrow> real \<times> real) option"

text \<open>
  \<^verbatim>\<open>Boat._kinematics\<close>. Each of \<^verbatim>\<open>damping[0]\<close>, \<^verbatim>\<open>damping[1]\<close> and
  \<^verbatim>\<open>damping[2]\<close> raises \<^verbatim>\<open>IndexError\<close> on a list that is too short, so the
  function returns only for a damping list of at least three elements. The quotients by
  \<^verbatim>\<open>mass\<close> and \<^verbatim>\<open>inertia\<close> are written as the source writes them. A zero mass
  or inertia is outside the real-number reading: the source then raises
  \<^verbatim>\<open>ZeroDivisionError\<close> where both operands are Python floats and continues with an
  infinity or NaN where one is a numpy float, and neither is what HOL's total division
  gives. Every statement below that depends on a quotient therefore assumes a nonzero
  mass and inertia.
\<close>

definition kinematics :: "Boat \<Rightarrow> real \<Rightarrow> real \<Rightarrow> real \<Rightarrow> error + real list" where
  "kinematics b Fx Fy M =
     (let s = state b; p = params b;
          dx = Vx s * cos (psi s) - Vy s * sin (psi s);
          dy = Vx s * sin (psi s) + Vy s * cos (psi s);
          dpsi = omega s;
          (F_sail_x, F_sail_y) =
            (case wind_field b of
               None \<Rightarrow> (0, 0)
             | Some get_wind \<Rightarrow>
                 (let (V_wx_global, V_wy_global) = get_wind (pos_x s, pos_y s);
                      V_wx_body = cos (psi s) * V_wx_global + sin (psi s) * V_wy_global;
                      V_wy_body = - sin (psi s) * V_wx_global + cos (psi s) * V_wy_global;
                      V_aw_x = V_wx_body - Vx s;
                      V_aw_y = V_wy_body - Vy s;
                      Wind_Force = 0.5 * air_density p * sail_area p
                  in (Wind_Force * sail_Cx p * V_aw_x, Wind_Force * sail_Cy p * V_aw_y)))
      in if length (damping p) < 3 then Inl IndexError
         else Inr [dx, dy, dpsi,
                   (Fx + F_sail_x) / mass p - damping p ! 0 * Vx s,
                   (Fy + F_sail_y) / mass p - damping p ! 1 * Vy s,
                   M / inertia p - damping p ! 2 * omega s])"

text \<open>
  \<^verbatim>\<open>dynamics\<close> of the base class and of the two variants, dispatched on the tag.
  \<^verbatim>\<open>control[0]\<close> and \<^verbatim>\<open>control[1]\<close> raise \<^verbatim>\<open>IndexError\<close> on a control
  array with fewer than two elements.
\<close>

definition Boat_dynamics :: "Boat \<Rightarrow> real list \<Rightarrow> error + real list" where
  "Boat_dynamics b control =
     (case kind b of
        PlainBoat \<Rightarrow> Inl NotImplementedError
      | DifferentialThrustBoat \<Rightarrow>
          if length control < 2 then Inl IndexError
          else (let Fx = control ! 0 + control ! 1;
                    Fy = 0;
                    M = L (params b) * (control ! 1 - control ! 0)
                in kinematics b Fx Fy M)
      | SteerableThrustBoat \<Rightarrow>
          if length control < 2 then Inl IndexError
          else (let thrust = control ! 0; theta = control ! 1;
                    Fx = thrust * cos theta;
                    Fy = thrust * sin theta;
                    M = thrust * L (params b) * sin theta
                in kinematics b Fx Fy M))"

text \<open>
  \<^verbatim>\<open>Boat.update_state\<close>: the dynamics output is computed first, so an error of
  \<^verbatim>\<open>dynamics\<close> leaves before the concatenation and before the state is touched.
\<close>

definition update_state ::
  "Boat \<Rightarrow> real list \<Rightarrow> real list \<Rightarrow> real \<Rightarrow> (error + unit) \<times> Boat" where
  "update_state b control adaptation_derivatives dt =
     (case Boat_dynamics b control of
        Inl e \<Rightarrow> (Inl e, b)
      | Inr d \<Rightarrow>
          (let derivatives = d @ adaptation_derivatives;
               (r, s') = BoatState_update (state b) derivatives dt
           in (r, b\<lparr>state := s'\<rparr>)))"


section \<open>Cart-pole\<close>

text \<open>
  \<^verbatim>\<open>CartPoleParams\<close> of \<^verbatim>\<open>cartpole.py\<close>. The fields \<^verbatim>\<open>l\<close>, \<^verbatim>\<open>g\<close> and
  \<^verbatim>\<open>damping\<close> are called \<open>pole_l\<close>, \<open>grav_g\<close> and \<open>cart_damping\<close> here. A state
  is the 4-vector \<open>(x, x_dot, theta, theta_dot)\<close>.
\<close>

record CartPoleParams =
  m_cart :: real
  m_pole :: real
  pole_l :: real
  grav_g :: real
  cart_damping :: real
  rotary_damping :: real
  max_force :: real

type_synonym vec4 = "real \<times> real \<times> real \<times> real"

record CartPole =
  cp_state :: vec4
  cp_params :: CartPoleParams

text \<open>
  \<^verbatim>\<open>CartPole.dynamics\<close>. Its operands are numpy floats, whose division never raises;
  a zero divisor is outside the real-number reading, and the model has HOL's total
  division there.
\<close>

definition CartPole_dynamics :: "CartPoleParams \<Rightarrow> vec4 \<Rightarrow> real \<Rightarrow> vec4" where
  "CartPole_dynamics p st force =
     (let (x, x_dot, theta, theta_dot) = st;
          sin_theta = sin theta;
          cos_theta = cos theta;
          total_mass = m_cart p + m_pole p;
          pole_mass_length = m_pole p * pole_l p;
          temp = (force + pole_mass_length * theta_dot ^ 2 * sin_theta
                  - cart_damping p * x_dot) / total_mass;
          theta_acc = (grav_g p * sin_theta - cos_theta * temp
                       - rotary_damping p * theta_dot) /
                      (pole_l p * (4 / 3 - m_pole p * cos_theta ^ 2 / total_mass));
          x_acc = temp - pole_mass_length * theta_acc * cos_theta / total_mass
      in (x_dot, x_acc, theta_dot, theta_acc))"

text \<open>
  Array arithmetic of numpy on one-dimensional arrays of equal length: element by
  element. \<open>stack4\<close> is \<^verbatim>\<open>np.stack\<close> of four columns along the last axis.
\<close>

definition vadd :: "real list \<Rightarrow> real list \<Rightarrow> real list" where
  "vadd xs ys = map2 (+) xs ys"

definition vsub :: "real list \<Rightarrow> real list \<Rightarrow> real list" where
  "vsub xs ys = map2 (-) xs ys"

definition vmul :: "real list \<Rightarrow> real list \<Rightarrow> real list" where
  "vmul xs ys = map2 (*) xs ys"

definition vdiv :: "real list \<Rightarrow> real list \<Rightarrow> real list" where
  "vdiv xs ys = map2 (/) xs ys"

definition stack4 :: "real list \<Rightarrow> real list \<Rightarrow> real list \<Rightarrow> real list \<Rightarrow> vec4 list" where
  "stack4 as bs cs ds = zip as (zip bs (zip cs ds))"

text \<open>
  \<^verbatim>\<open>CartPole.dynamics_batch\<close>: the columns of the \<open>N \<times> 4\<close> array, then the
  formulas of the scalar form as array operations. The only operand that is not a column
  of \<open>states\<close> is \<open>forces\<close>: numpy broadcasts a one-element \<open>forces\<close> over the
  rows, and any other length different from \<open>N\<close> ends in a \<^verbatim>\<open>ValueError\<close> (of the
  addition, or of \<^verbatim>\<open>np.stack\<close> when \<open>N = 1\<close>).
\<close>

definition CartPole_dynamics_batch ::
  "CartPoleParams \<Rightarrow> vec4 list \<Rightarrow> real list \<Rightarrow> error + vec4 list" where
  "CartPole_dynamics_batch p states forces =
     (let N = length states;
          x = map (\<lambda>(a, b, c, d). a) states;
          x_dot = map (\<lambda>(a, b, c, d). b) states;
          theta = map (\<lambda>(a, b, c, d). c) states;
          theta_dot = map (\<lambda>(a, b, c, d). d) states;
          sin_theta = map sin theta;
          cos_theta = map cos theta;
          total_mass = m_cart p + m_pole p;
          pole_mass_length = m_pole p * pole_l p
      in if length forces \<noteq> N \<and> length forces \<noteq> 1 then Inl ValueError
         else
          (let forces_N = (if length forces = N then forces else replicate N (hd forces));
               temp = map (\<lambda>v. v / total_mass)
                        (vsub (vadd forces_N
                                 (vmul (map (\<lambda>v. pole_mass_length * v)
                                          (map (\<lambda>v. v ^ 2) theta_dot))
                                       sin_theta))
                              (map (\<lambda>v. cart_damping p * v) x_dot));
               theta_acc =
                 vdiv (vsub (vsub (map (\<lambda>v. grav_g p * v) sin_theta) (vmul cos_theta temp))
                            (map (\<lambda>v. rotary_damping p * v) theta_dot))
                      (map (\<lambda>v. pole_l p * v)
                         (map (\<lambda>v. 4 / 3 - v)
                            (map (\<lambda>v. v / total_mass)
                               (map (\<lambda>v. m_pole p * v) (map (\<lambda>v. v ^ 2) cos_theta)))));
               x_acc = vsub temp
                         (map (\<lambda>v. v / total_mass)
                            (vmul (map (\<lambda>v. pole_mass_length * v) theta_acc) cos_theta));
               derivs = stack4 x_dot x_acc theta_dot theta_acc
           in Inr derivs))"

text \<open>
  \<^verbatim>\<open>np.clip(a, a_min, a_max)\<close> is numpy's \<open>minimum(maximum(a, a_min), a_max)\<close>.
\<close>

definition clip :: "real \<Rightarrow> real \<Rightarrow> real \<Rightarrow> real" where
  "clip a a_min a_max = min (max a a_min) a_max"

text \<open>
  \<^verbatim>\<open>CartPole.update\<close>: clip the force, one Euler step on the whole vector, then the
  wrap of component 2, read from the vector after the step.
\<close>

definition CartPole_update :: "CartPole \<Rightarrow> real \<Rightarrow> real \<Rightarrow> CartPole" where
  "CartPole_update c force dt =
     (let force' = clip force (- max_force (cp_params c)) (max_force (cp_params c));
          (d0, d1, d2, d3) = CartPole_dynamics (cp_params c) (cp_state c) force';
          (s0, s1, s2, s3) = cp_state c;
          (t0, t1, t2, t3) = (s0 + d0 * dt, s1 + d1 * dt, s2 + d2 * dt, s3 + d3 * dt)
      in c\<lparr>cp_state := (t0, t1, py_mod (t2 + pi) (2 * pi) - pi, t3)\<rparr>)"

text \<open>The defaults of the \<^verbatim>\<open>CartPoleParams\<close> dataclass.\<close>

definition default_params :: CartPoleParams where
  "default_params = \<lparr>m_cart = 1, m_pole = 0.1, pole_l = 0.5, grav_g = 9.81,
                       cart_damping = 10, rotary_damping = 0.1, max_force = 300\<rparr>"

text \<open>Component 2 of the state vector of a cart-pole, the pole angle.\<close>

definition pole_angle :: "CartPole \<Rightarrow> real" where
  "pole_angle c = (case cp_state c of (x, x_dot, theta, theta_dot) \<Rightarrow> theta)"

section \<open>Inputs of the end-to-end examples\<close>

text \<open>
  The boat of the end-to-end example: all-zero state, mass 10, inertia 5, no damping,
  lever arm 1, no wind field. The example leaves the four sail parameters open.
\<close>

definition zero_state :: BoatState where
  "zero_state = \<lparr>pos_x = 0, pos_y = 0, psi = 0, Vx = 0, Vy = 0, omega = 0,
                  adapt_param1 = 0, adapt_param2 = 0\<rparr>"

definition end_to_end_boat :: "real \<Rightarrow> real \<Rightarrow> real \<Rightarrow> real \<Rightarrow> Boat" where
  "end_to_end_boat rho cx cy area =
     \<lparr>kind = DifferentialThrustBoat, state = zero_state,
      params = \<lparr>mass = 10, inertia = 5, damping = [0, 0, 0], L = 1, air_density = rho,
                sail_Cx = cx, sail_Cy = cy, sail_area = area\<rparr>,
      wind_field = None\<rparr>"




section \<open>Sail drag under a zero wind\<close>





section \<open>Properties of the boat state\<close>

lemma py_mod_range:
  assumes "0 < b"
  shows "0 \<le> py_mod a b" and "py_mod a b < b"
proof -
  have lo: "of_int \<lfloor>a / b\<rfloor> * b \<le> a"
    using assms floor_divide_lower by blast
  have hi: "a < (of_int \<lfloor>a / b\<rfloor> + 1) * b"
    using assms floor_divide_upper by blast
  show "0 \<le> py_mod a b"
    using lo by (simp add: py_mod_def mult.commute)
  show "py_mod a b < b"
    using hi by (simp add: py_mod_def algebra_simps)
qed

text \<open>
  C7. For every boat state \<open>s\<close>, \<open>from_array (to_array s)\<close> succeeds and returns
  \<open>s\<close> itself, and \<open>to_array\<close> lists the eight fields in the order
  x, y, psi, Vx, Vy, omega, adapt_param1, adapt_param2.
\<close>

theorem from_array_to_array:
  "from_array (to_array s) = Inr s \<and>
   to_array s = [pos_x s, pos_y s, psi s, Vx s, Vy s, omega s,
                 adapt_param1 s, adapt_param2 s]"
  by (simp add: from_array_def to_array_def)

text \<open>
  C5. \<open>from_array\<close> and \<open>BoatState_update\<close> raise exactly when their array argument
  does not have 8 elements, the error is the validation error \<open>ValueError\<close>, and a
  failing update leaves the state as it was.
\<close>

theorem boat_state_validation:
  "(isl (from_array arr) \<longleftrightarrow> length arr \<noteq> 8) \<and>
   (from_array arr = Inl ValueError \<longleftrightarrow> length arr \<noteq> 8) \<and>
   (isl (fst (BoatState_update s derivatives dt)) \<longleftrightarrow> length derivatives \<noteq> 8) \<and>
   (fst (BoatState_update s derivatives dt) = Inl ValueError
      \<longleftrightarrow> length derivatives \<noteq> 8) \<and>
   (length derivatives \<noteq> 8 \<longrightarrow> snd (BoatState_update s derivatives dt) = s)"
  by (simp add: from_array_def BoatState_update_def)

theorem boat_state_validation_witness:
  "isl (from_array []) \<and>
   from_array (replicate 7 0) = Inl ValueError \<and>
   isl (fst (BoatState_update (\<lparr>pos_x = 1, pos_y = 2, psi = 3, Vx = 4, Vy = 5, omega = 6,
          adapt_param1 = 7, adapt_param2 = 8\<rparr>) (replicate 9 1) 1)) \<and>
   snd (BoatState_update (\<lparr>pos_x = 1, pos_y = 2, psi = 3, Vx = 4, Vy = 5, omega = 6,
          adapt_param1 = 7, adapt_param2 = 8\<rparr>) (replicate 9 1) 1)
     = \<lparr>pos_x = 1, pos_y = 2, psi = 3, Vx = 4, Vy = 5, omega = 6,
          adapt_param1 = 7, adapt_param2 = 8\<rparr> \<and>
   \<not> isl (from_array (replicate 8 0))"
  using boat_state_validation [of "[]"
          "\<lparr>pos_x = 1, pos_y = 2, psi = 3, Vx = 4, Vy = 5, omega = 6,
            adapt_param1 = 7, adapt_param2 = 8\<rparr>" "replicate 9 1" 1]
        boat_state_validation [of "replicate 7 0"]
        boat_state_validation [of "replicate 8 0"]
  by simp

section \<open>Angle wrapping\<close>

lemma py_mod_pi: "py_mod pi (2 * pi) = pi"
  by (simp add: py_mod_def)

lemma wrap_angle_zero: "wrap_angle 0 = 0"
  by (simp add: wrap_angle_def py_mod_pi)

lemma wrap_angle_bounds: "- pi \<le> wrap_angle a" "wrap_angle a < pi"
  using py_mod_range [of "2 * pi" "a + pi"] by (simp_all add: wrap_angle_def)

lemma CartPole_update_state:
  "cp_state (CartPole_update c force dt) =
     (case cp_state c of (s0, s1, s2, s3) \<Rightarrow>
        case CartPole_dynamics (cp_params c) (cp_state c)
               (clip force (- max_force (cp_params c)) (max_force (cp_params c))) of
          (d0, d1, d2, d3) \<Rightarrow>
            (s0 + d0 * dt, s1 + d1 * dt, wrap_angle (s2 + d2 * dt), s3 + d3 * dt))"
  by (simp add: CartPole_update_def Let_def wrap_angle_def split: prod.splits)

lemma pole_angle_update_range:
  "- pi \<le> pole_angle (CartPole_update c force dt)"
  "pole_angle (CartPole_update c force dt) < pi"
  by (simp_all add: pole_angle_def CartPole_update_state wrap_angle_bounds split: prod.splits)

text \<open>
  C3, as the claim states it, fails at the angle \<open>pi\<close>: the floored remainder of
  \<open>2 * pi\<close> by \<open>2 * pi\<close> is 0, so the wrap returns \<open>- pi\<close>, which is not strictly
  greater than \<open>- pi\<close>.
\<close>

theorem wrap_angle_counterexample:
  "wrap_angle pi = - pi \<and> \<not> (- pi < wrap_angle pi \<and> wrap_angle pi \<le> pi)"
proof -
  have "py_mod (pi + pi) (2 * pi) = 0"
    by (simp add: py_mod_def)
  then show ?thesis by (simp add: wrap_angle_def)
qed

text \<open>
  C3, amended. For every real angle the wrap lies in the closed interval from \<open>- pi\<close>
  to \<open>pi\<close>: at least \<open>- pi\<close>, which it takes at the angle \<open>pi\<close>, and at most
  \<open>pi\<close>. So does the heading after every successful \<open>BoatState_update\<close>, and the pole
  angle after every \<open>CartPole_update\<close>.
\<close>

theorem wrap_angle_range:
  "- pi \<le> wrap_angle angle \<and> wrap_angle angle \<le> pi \<and>
   (length derivatives = 8 \<longrightarrow>
      - pi \<le> psi (snd (BoatState_update s derivatives dt)) \<and>
      psi (snd (BoatState_update s derivatives dt)) \<le> pi) \<and>
   - pi \<le> pole_angle (CartPole_update c force dt') \<and>
   pole_angle (CartPole_update c force dt') \<le> pi"
  using wrap_angle_bounds [of angle]
    wrap_angle_bounds [of "psi s + derivatives ! 2 * dt"]
    pole_angle_update_range [of c force dt']
  by (simp add: BoatState_update_def)

theorem wrap_angle_range_witness:
  "length (replicate 8 (1::real)) = 8 \<and>
   - pi \<le> psi (snd (BoatState_update (zero_state\<lparr>psi := 7\<rparr>) (replicate 8 1) 2)) \<and>
   psi (snd (BoatState_update (zero_state\<lparr>psi := 7\<rparr>) (replicate 8 1) 2)) \<le> pi \<and>
   - pi \<le> wrap_angle 7 \<and> wrap_angle 7 \<le> pi"
  using wrap_angle_range [of 7 "replicate 8 1" "zero_state\<lparr>psi := 7\<rparr>" 2]
  by simp

section \<open>Boat dynamics and the update step\<close>

lemma kinematics_length: "kinematics b Fx Fy M = Inr d \<Longrightarrow> length d = 6"
  by (auto simp add: kinematics_def Let_def split: if_splits prod.splits)

lemma Boat_dynamics_length: "Boat_dynamics b control = Inr d \<Longrightarrow> length d = 6"
  by (auto simp add: Boat_dynamics_def Let_def split: BoatKind.splits if_splits
      dest: kinematics_length)

lemma kinematics_isl:
  "isl (kinematics b Fx Fy M) \<longleftrightarrow> length (damping (params b)) < 3"
  by (auto simp add: kinematics_def Let_def split: prod.splits)

lemma kinematics_returns:
  "\<not> isl (kinematics b Fx Fy M) \<longleftrightarrow> 3 \<le> length (damping (params b))"
  by (auto simp add: kinematics_isl)

lemma Boat_dynamics_returns:
  "\<not> isl (Boat_dynamics b control) \<longleftrightarrow>
     kind b \<noteq> PlainBoat \<and> 2 \<le> length control \<and> 3 \<le> length (damping (params b))"
  by (cases "kind b") (auto simp add: Boat_dynamics_def Let_def kinematics_returns)

text \<open>
  C1, as the claim states it, fails: the two thrusts add up to a surge force of 2, so
  the acceleration is 2 / 10 and one step of length 1 from rest gives \<open>Vx = 1 / 5\<close>,
  not \<open>1 / 10\<close>. The sail parameters, which the example leaves open, are set to 1 here;
  without a wind field they are not read.
\<close>

theorem end_to_end_step_counterexample:
  "fst (update_state (end_to_end_boat 1 1 1 1) [1, 1] [0, 0] 1) = Inr () \<and>
   Vx (state (snd (update_state (end_to_end_boat 1 1 1 1) [1, 1] [0, 0] 1))) = 1 / 5 \<and>
   Vx (state (snd (update_state (end_to_end_boat 1 1 1 1) [1, 1] [0, 0] 1))) \<noteq> 1 / 10"
  by (simp add: update_state_def Boat_dynamics_def kinematics_def BoatState_update_def
        end_to_end_boat_def zero_state_def wrap_angle_zero)

text \<open>
  C1, amended. For the differential-thrust boat of the example, whatever its sail
  parameters, one \<open>update_state\<close> with control \<open>(1, 1)\<close>, zero adaptation derivatives
  and \<open>dt = 1\<close> succeeds and yields the state whose \<open>Vx\<close> is \<open>1 / 5\<close> and whose other
  seven components are 0; nothing else of the boat changes.
\<close>

theorem end_to_end_step:
  "update_state (end_to_end_boat rho cx cy area) [1, 1] [0, 0] 1 =
     (Inr (), (end_to_end_boat rho cx cy area)\<lparr>state := zero_state\<lparr>Vx := 1 / 5\<rparr>\<rparr>)"
  by (simp add: update_state_def Boat_dynamics_def kinematics_def BoatState_update_def
        end_to_end_boat_def zero_state_def wrap_angle_zero)

text \<open>
  C9, as the claim states it, fails: with adaptation derivatives of one element,
  \<open>update_state\<close> on an instance of the base class raises \<open>NotImplementedError\<close>, and
  on a differential-thrust boat with a control of one element it raises \<open>IndexError\<close>.
  Both errors leave \<^verbatim>\<open>dynamics\<close>, before the concatenation; neither is the validation
  error of the length-8 check.
\<close>

theorem update_state_adaptation_length_counterexample:
  "length [3 :: real] \<noteq> 2 \<and>
   update_state ((end_to_end_boat 1 1 1 1)\<lparr>kind := PlainBoat\<rparr>) [1, 1] [3] 1
     = (Inl NotImplementedError, (end_to_end_boat 1 1 1 1)\<lparr>kind := PlainBoat\<rparr>) \<and>
   update_state (end_to_end_boat 1 1 1 1) [1] [3] 1
     = (Inl IndexError, end_to_end_boat 1 1 1 1) \<and>
   fst (update_state (end_to_end_boat 1 1 1 1) [1] [3] 1) \<noteq> Inl ValueError"
  by (simp add: update_state_def Boat_dynamics_def end_to_end_boat_def)

text \<open>
  C9, amended. When the adaptation derivatives do not have exactly 2 elements,
  \<open>update_state\<close> raises and leaves the boat as it was. The error is the validation
  error of the length-8 check on every boat of one of the two variants with a control of
  at least two elements, a damping list of at least three and a nonzero mass and
  inertia, where \<^verbatim>\<open>dynamics\<close> returns its 6-element output. On an instance of the
  base class it is \<open>NotImplementedError\<close>, and on a variant with a control of fewer than
  two elements it is \<open>IndexError\<close>.
\<close>

theorem update_state_adaptation_length:
  assumes "length adaptation_derivatives \<noteq> 2"
  shows "snd (update_state b control adaptation_derivatives dt) = b \<and>
         isl (fst (update_state b control adaptation_derivatives dt)) \<and>
         (kind b \<noteq> PlainBoat \<and> 2 \<le> length control \<and> 3 \<le> length (damping (params b)) \<and>
          mass (params b) \<noteq> 0 \<and> inertia (params b) \<noteq> 0 \<longrightarrow>
            fst (update_state b control adaptation_derivatives dt) = Inl ValueError) \<and>
         (kind b = PlainBoat \<longrightarrow>
            fst (update_state b control adaptation_derivatives dt) = Inl NotImplementedError) \<and>
         (kind b \<noteq> PlainBoat \<and> length control < 2 \<longrightarrow>
            fst (update_state b control adaptation_derivatives dt) = Inl IndexError)"
proof (cases "Boat_dynamics b control")
  case (Inl e)
  have "isl (Boat_dynamics b control)"
    using Inl by simp
  then have not_ret: "\<not> (kind b \<noteq> PlainBoat \<and> 2 \<le> length control \<and>
                         3 \<le> length (damping (params b)))"
    using Boat_dynamics_returns [of b control] by blast
  have plain: "kind b = PlainBoat \<longrightarrow> e = NotImplementedError"
    using Inl by (auto simp add: Boat_dynamics_def)
  have short: "kind b \<noteq> PlainBoat \<and> length control < 2 \<longrightarrow> e = IndexError"
    using Inl by (cases "kind b") (auto simp add: Boat_dynamics_def)
  show ?thesis
    using Inl not_ret plain short by (auto simp add: update_state_def)
next
  case (Inr d)
  then have len: "length (d @ adaptation_derivatives) \<noteq> 8"
    using assms Boat_dynamics_length [OF Inr] by simp
  have "\<not> isl (Boat_dynamics b control)"
    using Inr by simp
  then have ret: "kind b \<noteq> PlainBoat \<and> 2 \<le> length control"
    using Boat_dynamics_returns [of b control] by blast
  show ?thesis
    using Inr len ret by (auto simp add: update_state_def BoatState_update_def)
qed

theorem update_state_adaptation_length_witness:
  "length [3 :: real] \<noteq> 2 \<and>
   update_state (end_to_end_boat 1 1 1 1) [1, 1] [3] 1
     = (Inl ValueError, end_to_end_boat 1 1 1 1) \<and>
   update_state (end_to_end_boat 1 1 1 1) [1, 1] [3, 4, 5] 1
     = (Inl ValueError, end_to_end_boat 1 1 1 1) \<and>
   update_state ((end_to_end_boat 1 1 1 1)\<lparr>kind := SteerableThrustBoat\<rparr>) [1, 0] [] 1
     = (Inl ValueError, (end_to_end_boat 1 1 1 1)\<lparr>kind := SteerableThrustBoat\<rparr>) \<and>
   update_state ((end_to_end_boat 1 1 1 1)\<lparr>kind := PlainBoat\<rparr>) [1, 1] [3, 4, 5] 1
     = (Inl NotImplementedError, (end_to_end_boat 1 1 1 1)\<lparr>kind := PlainBoat\<rparr>) \<and>
   update_state (end_to_end_boat 1 1 1 1) [] [3, 4, 5] 1
     = (Inl IndexError, end_to_end_boat 1 1 1 1)"
proof -
  have len: "length [3 :: real] \<noteq> 2" "length [3, 4, 5 :: real] \<noteq> 2"
      "length ([] :: real list) \<noteq> 2"
    by simp_all
  show ?thesis
    using update_state_adaptation_length [OF len(1), of "end_to_end_boat 1 1 1 1" "[1, 1]" 1]
      update_state_adaptation_length [OF len(2), of "end_to_end_boat 1 1 1 1" "[1, 1]" 1]
      update_state_adaptation_length [OF len(3),
        of "(end_to_end_boat 1 1 1 1)\<lparr>kind := SteerableThrustBoat\<rparr>" "[1, 0]" 1]
      update_state_adaptation_length [OF len(2),
        of "(end_to_end_boat 1 1 1 1)\<lparr>kind := PlainBoat\<rparr>" "[1, 1]" 1]
      update_state_adaptation_length [OF len(2), of "end_to_end_boat 1 1 1 1" "[]" 1]
    by (simp add: prod_eq_iff end_to_end_boat_def)
qed

text \<open>
  C10. \<open>Boat_dynamics\<close> raises \<open>NotImplementedError\<close> exactly on an instance of the
  base class, for every control input, and \<open>update_state\<close> on such an instance raises
  it too and changes nothing. Where the dynamics returns a result, the boat is one of the
  two variants (and its control has at least two elements, its damping list at least
  three); and on every such boat with a nonzero mass and inertia it does return.
\<close>

theorem plain_boat_not_implemented:
  "(Boat_dynamics b control = Inl NotImplementedError \<longleftrightarrow> kind b = PlainBoat) \<and>
   (kind b = PlainBoat \<longrightarrow>
      update_state b control adaptation_derivatives dt = (Inl NotImplementedError, b)) \<and>
   (\<not> isl (Boat_dynamics b control) \<longrightarrow>
      kind b \<noteq> PlainBoat \<and> 2 \<le> length control \<and> 3 \<le> length (damping (params b))) \<and>
   (kind b \<noteq> PlainBoat \<and> 2 \<le> length control \<and> 3 \<le> length (damping (params b)) \<and>
    mass (params b) \<noteq> 0 \<and> inertia (params b) \<noteq> 0 \<longrightarrow>
      \<not> isl (Boat_dynamics b control))"
proof -
  have "Boat_dynamics b control = Inl NotImplementedError \<longleftrightarrow> kind b = PlainBoat"
    by (cases "kind b")
      (auto simp add: Boat_dynamics_def kinematics_def Let_def split: prod.splits if_splits)
  moreover have "kind b = PlainBoat \<longrightarrow>
      update_state b control adaptation_derivatives dt = (Inl NotImplementedError, b)"
    by (simp add: update_state_def Boat_dynamics_def)
  ultimately show ?thesis
    using Boat_dynamics_returns [of b control] by blast
qed

theorem plain_boat_not_implemented_witness:
  "kind ((end_to_end_boat 1 1 1 1)\<lparr>kind := PlainBoat\<rparr>) = PlainBoat \<and>
   Boat_dynamics ((end_to_end_boat 1 1 1 1)\<lparr>kind := PlainBoat\<rparr>) [1, 1]
     = Inl NotImplementedError \<and>
   update_state ((end_to_end_boat 1 1 1 1)\<lparr>kind := PlainBoat\<rparr>) [1, 1] [0, 0] 1
     = (Inl NotImplementedError, (end_to_end_boat 1 1 1 1)\<lparr>kind := PlainBoat\<rparr>) \<and>
   \<not> isl (Boat_dynamics ((end_to_end_boat 1 1 1 1)\<lparr>kind := SteerableThrustBoat\<rparr>) [1, 0]) \<and>
   \<not> isl (Boat_dynamics (end_to_end_boat 1 1 1 1) [1, 1])"
  using plain_boat_not_implemented
          [of "(end_to_end_boat 1 1 1 1)\<lparr>kind := PlainBoat\<rparr>" "[1, 1]" "[0, 0]" 1]
        plain_boat_not_implemented
          [of "(end_to_end_boat 1 1 1 1)\<lparr>kind := SteerableThrustBoat\<rparr>" "[1, 0]"]
        plain_boat_not_implemented [of "end_to_end_boat 1 1 1 1" "[1, 1]"]
  by (simp add: end_to_end_boat_def)

section \<open>A wind field that is zero everywhere\<close>













section \<open>Cart-pole: batch dynamics\<close>

lemma vec_nth:
  "i < length xs \<Longrightarrow> i < length ys \<Longrightarrow> vadd xs ys ! i = xs ! i + ys ! i"
  "i < length xs \<Longrightarrow> i < length ys \<Longrightarrow> vsub xs ys ! i = xs ! i - ys ! i"
  "i < length xs \<Longrightarrow> i < length ys \<Longrightarrow> vmul xs ys ! i = xs ! i * ys ! i"
  "i < length xs \<Longrightarrow> i < length ys \<Longrightarrow> vdiv xs ys ! i = xs ! i / ys ! i"
  by (simp_all add: vadd_def vsub_def vmul_def vdiv_def)

lemma vec_length:
  "length (vadd xs ys) = min (length xs) (length ys)"
  "length (vsub xs ys) = min (length xs) (length ys)"
  "length (vmul xs ys) = min (length xs) (length ys)"
  "length (vdiv xs ys) = min (length xs) (length ys)"
  by (simp_all add: vadd_def vsub_def vmul_def vdiv_def)

lemma stack4_nth:
  "i < length as \<Longrightarrow> i < length bs \<Longrightarrow> i < length cs \<Longrightarrow> i < length ds \<Longrightarrow>
     stack4 as bs cs ds ! i = (as ! i, bs ! i, cs ! i, ds ! i)"
  by (simp add: stack4_def)

lemma stack4_length:
  "length (stack4 as bs cs ds) = min (length as) (min (length bs) (min (length cs) (length ds)))"
  by (simp add: stack4_def)

lemma dynamics_batch_row:
  assumes "length forces = length states" and "i < length states"
  shows "\<exists>rows. CartPole_dynamics_batch p states forces = Inr rows \<and>
           length rows = length states \<and>
           rows ! i = CartPole_dynamics p (states ! i) (forces ! i)"
proof -
  obtain x x_dot theta theta_dot where row: "states ! i = (x, x_dot, theta, theta_dot)"
    by (cases "states ! i") auto
  show ?thesis
    using assms row
    by (simp add: CartPole_dynamics_batch_def CartPole_dynamics_def Let_def
        vec_nth vec_length stack4_nth stack4_length)
qed

text \<open>
  C4. For \<open>N\<close> states and \<open>N\<close> forces the batch form returns \<open>N\<close> rows, and for each
  \<open>i < N\<close> row \<open>i\<close> is the scalar dynamics of state \<open>i\<close> and force \<open>i\<close>. No other
  row has an influence: any other batch with the same state and force at index \<open>i\<close> has
  the same row \<open>i\<close>.
\<close>

theorem dynamics_batch_rowwise:
  assumes "length forces = length states" and "i < length states"
  shows "\<exists>rows. CartPole_dynamics_batch p states forces = Inr rows \<and>
           length rows = length states \<and>
           rows ! i = CartPole_dynamics p (states ! i) (forces ! i) \<and>
           (\<forall>states' forces'.
              length forces' = length states' \<and> i < length states' \<and>
              states' ! i = states ! i \<and> forces' ! i = forces ! i \<longrightarrow>
              (\<exists>rows'. CartPole_dynamics_batch p states' forces' = Inr rows' \<and>
                        rows' ! i = rows ! i))"
proof -
  obtain rows where rows: "CartPole_dynamics_batch p states forces = Inr rows"
      "length rows = length states"
      "rows ! i = CartPole_dynamics p (states ! i) (forces ! i)"
    using dynamics_batch_row [OF assms] by blast
  have "\<exists>rows'. CartPole_dynamics_batch p states' forces' = Inr rows' \<and> rows' ! i = rows ! i"
    if "length forces' = length states'" "i < length states'"
       "states' ! i = states ! i" "forces' ! i = forces ! i" for states' forces'
    using dynamics_batch_row [OF that(1,2), of p] that(3,4) rows(3) by auto
  then show ?thesis
    using rows by blast
qed

theorem dynamics_batch_rowwise_witness:
  "length [0, 5 :: real] = length [(0, 0, 0, 0), (1, 2, 0, 3 :: real)] \<and>
   (1 :: nat) < length [(0, 0, 0, 0), (1, 2, 0, 3 :: real)] \<and>
   (\<exists>rows. CartPole_dynamics_batch default_params [(0, 0, 0, 0), (1, 2, 0, 3)] [0, 5]
              = Inr rows \<and>
           length rows = 2 \<and>
           rows ! 1 = CartPole_dynamics default_params (1, 2, 0, 3) 5 \<and>
           (\<exists>rows'. CartPole_dynamics_batch default_params
                       [(9, 9, 9, 9), (1, 2, 0, 3), (7, 7, 7, 7)] [8, 5, 6] = Inr rows' \<and>
                     rows' ! 1 = rows ! 1))"
proof -
  obtain rows where rows:
      "CartPole_dynamics_batch default_params [(0, 0, 0, 0), (1, 2, 0, 3)] [0, 5] = Inr rows"
      "length rows = length [(0, 0, 0, 0), (1, 2, 0, 3 :: real)]"
      "rows ! 1 = CartPole_dynamics default_params ([(0, 0, 0, 0), (1, 2, 0, 3)] ! 1) ([0, 5] ! 1)"
      "\<forall>states' forces'.
              length forces' = length states' \<and> 1 < length states' \<and>
              states' ! 1 = [(0, 0, 0, 0), (1, 2, 0, 3)] ! 1 \<and> forces' ! 1 = [0, 5 :: real] ! 1 \<longrightarrow>
              (\<exists>rows'. CartPole_dynamics_batch default_params states' forces' = Inr rows' \<and>
                        rows' ! 1 = rows ! 1)"
    using dynamics_batch_rowwise [of "[0, 5]" "[(0, 0, 0, 0), (1, 2, 0, 3)]" 1 default_params]
    by auto
  have "\<exists>rows'. CartPole_dynamics_batch default_params
                       [(9, 9, 9, 9), (1, 2, 0, 3), (7, 7, 7, 7)] [8, 5, 6] = Inr rows' \<and>
                     rows' ! 1 = rows ! 1"
    using rows(4) [rule_format, of "[8, 5, 6]" "[(9, 9, 9, 9), (1, 2, 0, 3), (7, 7, 7, 7)]"]
    by simp
  then show ?thesis
    using rows(1,2,3) by simp
qed

section \<open>Cart-pole: the update step\<close>

lemma clip_ten: "clip (10 * m) (- m) m = clip m (- m) m"
  by (simp add: clip_def min_def max_def)

text \<open>
  C6. For every cart-pole and \<open>dt\<close>, \<open>CartPole_update\<close> with ten times the maximal
  force yields the same cart-pole as with the maximal force. The update is a total
  function (no error for any force) and sees a force only through its clipped value:
  the new state is the old one advanced by \<open>dt\<close> times the dynamics at the clipped
  force, with the pole angle wrapped, and the parameters stay. For a non-negative
  \<open>max_force\<close> the clipped value lies between \<open>- max_force\<close> and \<open>max_force\<close>: a
  force in that range passes unchanged, a force below it becomes \<open>- max_force\<close>, a
  force above it \<open>max_force\<close>. For a negative \<open>max_force\<close> the range is empty and the
  clipped value is \<open>max_force\<close>.
\<close>

theorem update_saturation:
  "CartPole_update c (10 * max_force (cp_params c)) dt =
     CartPole_update c (max_force (cp_params c)) dt \<and>
   CartPole_update c force dt =
     CartPole_update c (clip force (- max_force (cp_params c)) (max_force (cp_params c))) dt \<and>
   (0 \<le> max_force (cp_params c) \<longrightarrow>
      - max_force (cp_params c)
        \<le> clip force (- max_force (cp_params c)) (max_force (cp_params c)) \<and>
      clip force (- max_force (cp_params c)) (max_force (cp_params c))
        \<le> max_force (cp_params c)) \<and>
   (0 \<le> max_force (cp_params c) \<longrightarrow>
      clip force (- max_force (cp_params c)) (max_force (cp_params c)) =
        (if force < - max_force (cp_params c) then - max_force (cp_params c)
         else if max_force (cp_params c) < force then max_force (cp_params c)
         else force)) \<and>
   (max_force (cp_params c) < 0 \<longrightarrow>
      clip force (- max_force (cp_params c)) (max_force (cp_params c)) = max_force (cp_params c)) \<and>
   cp_params (CartPole_update c force dt) = cp_params c \<and>
   cp_state (CartPole_update c force dt) =
     (case cp_state c of (x, x_dot, theta, theta_dot) \<Rightarrow>
        case CartPole_dynamics (cp_params c) (x, x_dot, theta, theta_dot)
               (clip force (- max_force (cp_params c)) (max_force (cp_params c))) of
          (d0, d1, d2, d3) \<Rightarrow>
            (x + d0 * dt, x_dot + d1 * dt, wrap_angle (theta + d2 * dt), theta_dot + d3 * dt))"
proof -
  have idem: "clip (clip f (- m) m) (- m) m = clip f (- m) m" for f m :: real
    by (simp add: clip_def min_def max_def)
  have "CartPole_update c (10 * max_force (cp_params c)) dt =
        CartPole_update c (max_force (cp_params c)) dt"
    by (simp add: CartPole_update_def clip_ten)
  moreover have "CartPole_update c force dt =
     CartPole_update c (clip force (- max_force (cp_params c)) (max_force (cp_params c))) dt"
    by (simp add: CartPole_update_def idem)
  moreover have "0 \<le> max_force (cp_params c) \<longrightarrow>
      - max_force (cp_params c)
        \<le> clip force (- max_force (cp_params c)) (max_force (cp_params c)) \<and>
      clip force (- max_force (cp_params c)) (max_force (cp_params c))
        \<le> max_force (cp_params c)"
    by (simp add: clip_def min_def max_def)
  moreover have "0 \<le> max_force (cp_params c) \<longrightarrow>
      clip force (- max_force (cp_params c)) (max_force (cp_params c)) =
        (if force < - max_force (cp_params c) then - max_force (cp_params c)
         else if max_force (cp_params c) < force then max_force (cp_params c)
         else force)"
    by (simp add: clip_def min_def max_def)
  moreover have "max_force (cp_params c) < 0 \<longrightarrow>
      clip force (- max_force (cp_params c)) (max_force (cp_params c)) = max_force (cp_params c)"
    by (simp add: clip_def min_def max_def)
  moreover have "cp_params (CartPole_update c force dt) = cp_params c"
    by (simp add: CartPole_update_def Let_def split: prod.splits)
  moreover have "cp_state (CartPole_update c force dt) =
     (case cp_state c of (x, x_dot, theta, theta_dot) \<Rightarrow>
        case CartPole_dynamics (cp_params c) (x, x_dot, theta, theta_dot)
               (clip force (- max_force (cp_params c)) (max_force (cp_params c))) of
          (d0, d1, d2, d3) \<Rightarrow>
            (x + d0 * dt, x_dot + d1 * dt, wrap_angle (theta + d2 * dt), theta_dot + d3 * dt))"
    by (simp add: CartPole_update_def Let_def wrap_angle_def split: prod.splits)
  ultimately show ?thesis by blast
qed

theorem update_saturation_witness:
  "(0 :: real) \<le> max_force default_params \<and>
   clip 3000 (- 300) 300 = 300 \<and> clip 7 (- 300) 300 = 7 \<and> clip (- 3000) (- 300) 300 = - 300 \<and>
   CartPole_update \<lparr>cp_state = (0, 0, 0, 0), cp_params = default_params\<rparr> 3000 (1 / 1000) =
     CartPole_update \<lparr>cp_state = (0, 0, 0, 0), cp_params = default_params\<rparr> 300 (1 / 1000) \<and>
   CartPole_update \<lparr>cp_state = (0, 0, 0, 0), cp_params = default_params\<rparr> 3000 (1 / 1000) =
     \<lparr>cp_state = (0, 12 / 41, 0, - (18 / 41)), cp_params = default_params\<rparr> \<and>
   clip 7 5 (- 5) = - 5"
proof -
  let ?c = "\<lparr>cp_state = (0, 0, 0, 0), cp_params = default_params\<rparr>"
  let ?m = "max_force (cp_params ?c)"
  have m: "?m = 300" "max_force default_params = 300"
    by (simp_all add: default_params_def)
  have dyn: "CartPole_dynamics default_params (0, 0, 0, 0) 300
               = (0, 12000 / 41, 0, - (18000 / 41))"
    by (simp add: CartPole_dynamics_def default_params_def)
  have w0: "wrap_angle 0 = 0"
    by (simp add: wrap_angle_def py_mod_def)
  note sat = update_saturation [of ?c "1 / 1000"]
  have pos: "0 \<le> ?m"
    by (simp add: m)
  have "clip 3000 (- ?m) ?m =
          (if 3000 < - ?m then - ?m else if ?m < 3000 then ?m else 3000)"
    using sat [of 3000] pos by blast
  then have c1: "clip 3000 (- 300) 300 = 300"
    by (simp add: m)
  have "clip 7 (- ?m) ?m = (if 7 < - ?m then - ?m else if ?m < 7 then ?m else 7)"
    using sat [of 7] pos by blast
  then have c2: "clip 7 (- 300) 300 = 7"
    by (simp add: m)
  have "clip (- 3000) (- ?m) ?m =
          (if - 3000 < - ?m then - ?m else if ?m < - 3000 then ?m else - 3000)"
    using sat [of "- 3000"] pos by blast
  then have c3: "clip (- 3000) (- 300) 300 = - 300"
    by (simp add: m)
  have "CartPole_update ?c (10 * ?m) (1 / 1000) = CartPole_update ?c ?m (1 / 1000)"
    using sat [of 3000] by blast
  then have eq: "CartPole_update ?c 3000 (1 / 1000) = CartPole_update ?c 300 (1 / 1000)"
    by (simp add: m)
  have "cp_state (CartPole_update ?c 3000 (1 / 1000)) =
     (case cp_state ?c of (x, x_dot, theta, theta_dot) \<Rightarrow>
        case CartPole_dynamics (cp_params ?c) (x, x_dot, theta, theta_dot)
               (clip 3000 (- ?m) ?m) of
          (d0, d1, d2, d3) \<Rightarrow>
            (x + d0 * (1 / 1000), x_dot + d1 * (1 / 1000),
             wrap_angle (theta + d2 * (1 / 1000)), theta_dot + d3 * (1 / 1000)))"
    using sat [of 3000] by blast
  then have st: "cp_state (CartPole_update ?c 3000 (1 / 1000)) = (0, 12 / 41, 0, - (18 / 41))"
    by (simp add: m c1 dyn w0)
  have "cp_params (CartPole_update ?c 3000 (1 / 1000)) = cp_params ?c"
    using sat [of 3000] by blast
  then have pa: "cp_params (CartPole_update ?c 3000 (1 / 1000)) = default_params"
    by simp
  have "CartPole_update ?c 3000 (1 / 1000) =
          \<lparr>cp_state = (0, 12 / 41, 0, - (18 / 41)), cp_params = default_params\<rparr>"
    using st pa by (cases "CartPole_update ?c 3000 (1 / 1000)") simp
  moreover have "clip 7 5 (- 5) = - 5"
    using update_saturation
            [of "\<lparr>cp_state = (0, 0, 0, 0), cp_params = default_params\<lparr>max_force := - 5\<rparr>\<rparr>" 1 7]
    by simp
  ultimately show ?thesis
    using m(2) c1 c2 c3 eq by simp
qed

text \<open>
  C8. After every \<open>CartPole_update\<close>, for every force and every \<open>dt\<close>, also 0, the
  pole angle lies in one period: at least \<open>- pi\<close> and less than \<open>pi\<close>. With
  \<open>dt = 0\<close> the update changes the state in the pole angle only, which it wraps, so on
  a cart-pole whose pole angle is outside that range it is not the identity.
\<close>

theorem update_wraps_always:
  "- pi \<le> pole_angle (CartPole_update c force dt) \<and>
   pole_angle (CartPole_update c force dt) < pi \<and>
   cp_state (CartPole_update c force 0) =
     (case cp_state c of (x, x_dot, theta, theta_dot) \<Rightarrow> (x, x_dot, wrap_angle theta, theta_dot)) \<and>
   (pole_angle c < - pi \<or> pi \<le> pole_angle c \<longrightarrow> CartPole_update c force 0 \<noteq> c)"
proof -
  have zero: "cp_state (CartPole_update c force 0) =
     (case cp_state c of (x, x_dot, theta, theta_dot) \<Rightarrow> (x, x_dot, wrap_angle theta, theta_dot))"
    by (simp add: CartPole_update_state split: prod.splits)
  have "CartPole_update c force 0 \<noteq> c" if out: "pole_angle c < - pi \<or> pi \<le> pole_angle c"
  proof
    assume "CartPole_update c force 0 = c"
    then have "pole_angle (CartPole_update c force 0) = pole_angle c"
      by simp
    then show False
      using out pole_angle_update_range [of c force 0] by linarith
  qed
  then show ?thesis
    using zero pole_angle_update_range [of c force dt] by blast
qed

theorem update_wraps_always_witness:
  "pi \<le> pole_angle \<lparr>cp_state = (0, 0, 4, 0), cp_params = default_params\<rparr> \<and>
   CartPole_update \<lparr>cp_state = (0, 0, 4, 0), cp_params = default_params\<rparr> 0 0
     \<noteq> \<lparr>cp_state = (0, 0, 4, 0), cp_params = default_params\<rparr> \<and>
   cp_state (CartPole_update \<lparr>cp_state = (0, 0, 4, 0), cp_params = default_params\<rparr> 0 0)
     = (0, 0, wrap_angle 4, 0)"
proof -
  have out: "pi \<le> pole_angle \<lparr>cp_state = (0, 0, 4, 0), cp_params = default_params\<rparr>"
    using pi_less_4 by (simp add: pole_angle_def)
  show ?thesis
    using out update_wraps_always [of "\<lparr>cp_state = (0, 0, 4, 0), cp_params = default_params\<rparr>" 0 0]
    by simp
qed

end
